theory Spec2Isabelle
  imports Complex_Main "HOL-Library.Word"
begin

unbundle bit_operations_syntax

section \<open>Data model of eth/tracers/native/prestate.go\<close>

text \<open>
  Go's fixed-width integers are words: \<open>byte\<close> is \<open>8 word\<close>, \<open>uint64\<close> and \<open>int64\<close> are
  \<open>64 word\<close> (an \<open>int64\<close> is read with \<open>sint\<close>), \<open>uint256.Int\<close> is \<open>256 word\<close> and
  \<open>common.Address\<close> (a \<open>[20]byte\<close>) is \<open>160 word\<close>.
\<close>

type_synonym byte = "8 word"
type_synonym uint64 = "64 word"
type_synonym int64 = "64 word"
type_synonym uint256 = "256 word"
type_synonym address = "160 word"

text \<open>
  A Go \<open>error\<close> value that is not nil. The nil error is \<open>None\<close> of \<open>error option\<close>.
\<close>

datatype error = RangeError | ErrorString string

text \<open>\<open>type event struct { Caller; Topics0; Data }\<close>\<close>

record event =
  Caller :: address
  Topics0 :: uint256
  Data :: "string list"

text \<open>\<open>type prestateTracer struct { pre []event; isFail bool; reason error }\<close>\<close>

record prestateTracer =
  pre :: "event list"
  isFail :: bool
  reason :: "error option"

text \<open>
  What \<open>OnOpcode\<close> reads of its \<open>tracing.OpContext\<close>: \<open>StackData()\<close> is the slice
  backing the stack, so its last element is the top of the stack; \<open>Address()\<close> is the
  executing account; \<open>MemoryData()\<close> is the memory of the call frame.
\<close>

record OpContext =
  StackData :: "uint256 list"
  Address :: address
  MemoryData :: "byte list"

text \<open>An index expression out of range panics, and the panic leaves the hook.\<close>

datatype panic = IndexOutOfRange

text \<open>A line written by \<open>log.Warn\<close>: the message, then the err, offset and size fields.\<close>

datatype logRecord = Warn string error uint256 uint256

section \<open>Operations\<close>

text \<open>\<open>xs[i]\<close> on a slice, with an \<open>int\<close> index.\<close>

definition index :: "'a list \<Rightarrow> int \<Rightarrow> panic + 'a" where
  "index xs i = (if 0 \<le> i \<and> i < int (length xs) then Inr (xs ! nat i) else Inl IndexOutOfRange)"

text \<open>\<open>(*uint256.Int).Uint64\<close>: the lower 64 bits.\<close>

definition Uint64 :: "uint256 \<Rightarrow> uint64" where
  "Uint64 z = ucast z"

text \<open>
  \<open>hex.EncodeToString\<close> of the standard library: two characters of \<open>hextable\<close> for each
  byte, the high nibble first.
\<close>

definition hextable :: string where
  "hextable = ''0123456789abcdef''"

definition EncodeToString :: "byte list \<Rightarrow> string" where
  "EncodeToString src =
     concat (map (\<lambda>v. [hextable ! unat (drop_bit 4 v), hextable ! unat (v AND 0x0f)]) src)"

text \<open>
  The loop of \<open>OnOpcode\<close> that fills \<open>dataRes\<close>:
  \<^verbatim>\<open>for i := 0; i < len(data); i += 32 { end := i + 32; if end > len(data) { end = len(data) };
  slice := data[i:end]; dataRes = append(dataRes, "0x" + hex.EncodeToString(slice)) }\<close>
  The counter is a Go \<open>int\<close>; it stays below \<open>len(data) + 32\<close>, so it is a \<open>nat\<close> here.
\<close>

function dataResLoop :: "nat \<Rightarrow> byte list \<Rightarrow> string list \<Rightarrow> string list" where
  "dataResLoop i data dataRes =
     (if i < length data then
        (let end = (if i + 32 > length data then length data else i + 32);
             slice = take (end - i) (drop i data);
             hexString = ''0x'' @ EncodeToString slice
         in dataResLoop (i + 32) data (dataRes @ [hexString]))
      else dataRes)"
  by pat_completeness auto
termination
  by (relation "measure (\<lambda>(i, data, dataRes). length data - i)") auto

declare dataResLoop.simps [simp del]

text \<open>\<open>lookupLog\<close>: append one event.\<close>

definition lookupLog :: "address \<Rightarrow> string list \<Rightarrow> uint256 \<Rightarrow> prestateTracer \<Rightarrow> prestateTracer" where
  "lookupLog addr data topics0 t =
     t\<lparr>pre := pre t @ [\<lparr>Caller = addr, Topics0 = topics0, Data = data\<rparr>]\<rparr>"

text \<open>
  \<open>OnOpcode\<close>. The first argument is \<open>internal.GetMemoryCopyPadded\<close>, which the hook calls
  with the memory and the two operands converted by \<open>int64(x.Uint64())\<close>. The result is the
  panic that left the hook, or the tracer after the call with the lines it logged.
\<close>

definition OnOpcode ::
  "(byte list \<Rightarrow> int64 \<Rightarrow> int64 \<Rightarrow> error + byte list) \<Rightarrow>
   uint64 \<Rightarrow> byte \<Rightarrow> uint64 \<Rightarrow> uint64 \<Rightarrow> OpContext \<Rightarrow> byte list \<Rightarrow> int \<Rightarrow> error option \<Rightarrow>
   prestateTracer \<Rightarrow> panic + (prestateTracer \<times> logRecord list)" where
  "OnOpcode getMemoryCopyPadded pc opcode gas cost scope rData depth err t =
     (if opcode = 0xfd then Inr (t\<lparr>isFail := True\<rparr>, [])
      else if opcode > 0xa0 \<and> opcode \<le> 0xa4 then
        (let stackData = StackData scope;
             stackLen = int (length stackData);
             caller = Address scope
         in case index stackData (stackLen - 1) of Inl p \<Rightarrow> Inl p | Inr offset \<Rightarrow>
            (case index stackData (stackLen - 2) of Inl p \<Rightarrow> Inl p | Inr size' \<Rightarrow>
            (case index stackData (stackLen - 3) of Inl p \<Rightarrow> Inl p | Inr topics0 \<Rightarrow>
            (case getMemoryCopyPadded (MemoryData scope) (Uint64 offset) (Uint64 size') of
               Inl e \<Rightarrow> Inr (t, [Warn ''failed to copy CREATE2 input'' e offset size'])
             | Inr data \<Rightarrow> Inr (lookupLog caller (dataResLoop 0 data []) topics0 t, [])))))
      else Inr (t, []))"

text \<open>\<open>OnTxStart\<close> and \<open>OnTxEnd\<close> have empty bodies.\<close>

definition OnTxStart :: "'env \<Rightarrow> 'tx \<Rightarrow> address \<Rightarrow> prestateTracer \<Rightarrow> prestateTracer" where
  "OnTxStart env tx from' t = t"

definition OnTxEnd :: "'receipt \<Rightarrow> error option \<Rightarrow> prestateTracer \<Rightarrow> prestateTracer" where
  "OnTxEnd receipt err t = t"

text \<open>\<open>Stop\<close>: \<open>t.reason = err; t.isFail = true\<close>.\<close>

definition Stop :: "error option \<Rightarrow> prestateTracer \<Rightarrow> prestateTracer" where
  "Stop err t = (t\<lparr>reason := err\<rparr>)\<lparr>isFail := True\<rparr>"

text \<open>
  \<open>GetResult\<close>. The first argument is \<open>json.Marshal\<close> on the anonymous struct
  \<open>{t.pre, t.isFail, t.reason}\<close>. The result is the pair the Go function returns: the
  report (\<open>None\<close> for nil) and the error (\<open>None\<close> for nil).
\<close>

definition GetResult ::
  "(event list \<times> bool \<times> error option \<Rightarrow> error + byte list) \<Rightarrow> prestateTracer \<Rightarrow>
   byte list option \<times> error option" where
  "GetResult marshal t =
     (case marshal (pre t, isFail t, reason t) of
        Inl err \<Rightarrow> (None, Some err)
      | Inr res \<Rightarrow> (Some res, reason t))"

text \<open>
  \<open>newPrestateTracer\<close>: the tracer starts with no event, not failed and with no reason.
  The argument is what \<open>json.Unmarshal\<close> made of the configuration.
\<close>

definition newPrestateTracer :: "error + bool \<Rightarrow> error + prestateTracer" where
  "newPrestateTracer cfg =
     (case cfg of
        Inl err \<Rightarrow> Inl err
      | Inr DiffMode \<Rightarrow> Inr \<lparr>pre = [], isFail = False, reason = None\<rparr>)"

text \<open>
  Modelled from the spec: \<open>internal.GetMemoryCopyPadded\<close> is not among the sources. The
  spec's extractor fails with a range error if the offset or the size is negative; otherwise
  its result has exactly \<open>size\<close> bytes, the byte at source position \<open>p\<close> of
  \<open>[offset, offset + size)\<close> being the memory's byte where \<open>p\<close> is within the memory and a
  zero byte beyond it.
\<close>

definition GetMemoryCopyPadded :: "byte list \<Rightarrow> int64 \<Rightarrow> int64 \<Rightarrow> error + byte list" where
  "GetMemoryCopyPadded m offset size' =
     (if sint offset < 0 \<or> sint size' < 0 then Inl RangeError
      else Inr (map (\<lambda>p. if p < length m then m ! p else 0)
                  [nat (sint offset) ..< nat (sint offset) + nat (sint size')]))"

section \<open>A trace session\<close>

text \<open>
  The calls the host makes on one tracer, in the order it makes them. A panic ends the
  session.
\<close>

datatype call =
  Observe uint64 byte uint64 uint64 OpContext "byte list" int "error option"
| TxStart address
| TxEnd "error option"
| StopCall "error option"

fun step ::
  "(byte list \<Rightarrow> int64 \<Rightarrow> int64 \<Rightarrow> error + byte list) \<Rightarrow> call \<Rightarrow> prestateTracer \<Rightarrow>
   panic + prestateTracer" where
  "step g (Observe pc opcode gas cost scope rData depth err) t =
     (case OnOpcode g pc opcode gas cost scope rData depth err t of
        Inl p \<Rightarrow> Inl p
      | Inr (t', logged) \<Rightarrow> Inr t')"
| "step g (TxStart from') t = Inr (OnTxStart () () from' t)"
| "step g (TxEnd err) t = Inr (OnTxEnd () err t)"
| "step g (StopCall err) t = Inr (Stop err t)"

fun run ::
  "(byte list \<Rightarrow> int64 \<Rightarrow> int64 \<Rightarrow> error + byte list) \<Rightarrow> call list \<Rightarrow> prestateTracer \<Rightarrow>
   panic + prestateTracer" where
  "run g [] t = Inr t"
| "run g (c # cs) t = (case step g c t of Inl p \<Rightarrow> Inl p | Inr t' \<Rightarrow> run g cs t')"

text \<open>
  The host's guarantee for one call: when the instruction is of the log-emission family the
  stack holds the three operands the hook reads.
\<close>

fun stackAvailable :: "call \<Rightarrow> bool" where
  "stackAvailable (Observe pc opcode gas cost scope rData depth err) =
     (if 0xa0 < opcode \<and> opcode \<le> 0xa4 then 3 \<le> length (StackData scope) else True)"
| "stackAvailable c = True"

section \<open>The encoding in the spec's words\<close>

text \<open>
  The spec calls each string of an event's data the lower-case hexadecimal encoding of a
  chunk. This is that encoding written without the table of the library: a digit below ten
  is the character \<open>0\<close> (code 48) plus the digit, a digit from ten on is the character \<open>a\<close>
  (code 97) plus the digit minus ten, and a byte is its high digit followed by its low digit.
\<close>

definition specLowerHexDigit :: "nat \<Rightarrow> char" where
  "specLowerHexDigit d = char_of (if d < 10 then 48 + d else 87 + d)"

definition specLowerHex :: "byte list \<Rightarrow> string" where
  "specLowerHex bs =
     concat (map (\<lambda>b. [specLowerHexDigit (unat b div 16), specLowerHexDigit (unat b mod 16)]) bs)"

section \<open>Facts about the operations\<close>

lemmas tracer_eval =
  OnOpcode_def Let_def index_def Uint64_def GetMemoryCopyPadded_def lookupLog_def
  dataResLoop.simps EncodeToString_def hextable_def upt_rec

text \<open>The three index expressions of \<open>OnOpcode\<close> on a stack of at least three entries.\<close>

lemma index_top:
  "index (rest @ [c, b, a]) (int (length (rest @ [c, b, a])) - 1) = Inr a"
  "index (rest @ [c, b, a]) (int (length (rest @ [c, b, a])) - 2) = Inr b"
  "index (rest @ [c, b, a]) (int (length (rest @ [c, b, a])) - 3) = Inr c"
proof -
  have "nat (int (length (rest @ [c, b, a])) - 1) = length rest + 2"
    and "nat (int (length (rest @ [c, b, a])) - 2) = length rest + 1"
    and "nat (int (length (rest @ [c, b, a])) - 3) = length rest"
    by simp_all
  then show "index (rest @ [c, b, a]) (int (length (rest @ [c, b, a])) - 1) = Inr a"
    and "index (rest @ [c, b, a]) (int (length (rest @ [c, b, a])) - 2) = Inr b"
    and "index (rest @ [c, b, a]) (int (length (rest @ [c, b, a])) - 3) = Inr c"
    unfolding index_def by (simp_all add: nth_append)
qed

lemma log_family_iff:
  "(0xa0 < opcode \<and> opcode \<le> 0xa4) \<longleftrightarrow> opcode \<in> {0xa1, 0xa2, 0xa3, 0xa4 :: byte}"
  by (auto simp: word_less_nat_alt word_le_nat_alt) unat_arith+

lemma OnOpcode_fault:
  "OnOpcode g pc 0xfd gas cost scope rData depth err t = Inr (t\<lparr>isFail := True\<rparr>, [])"
  by (simp add: OnOpcode_def)

lemma OnOpcode_other:
  assumes "opcode \<noteq> 0xfd" and "\<not> (0xa0 < opcode \<and> opcode \<le> 0xa4)"
  shows "OnOpcode g pc opcode gas cost scope rData depth err t = Inr (t, [])"
  using assms by (auto simp add: OnOpcode_def)

lemma OnOpcode_log:
  assumes "0xa0 < opcode" and "opcode \<le> 0xa4"
    and "StackData scope = rest @ [topics0, size', offset]"
  shows "OnOpcode g pc opcode gas cost scope rData depth err t =
     (case g (MemoryData scope) (Uint64 offset) (Uint64 size') of
        Inl e \<Rightarrow> Inr (t, [Warn ''failed to copy CREATE2 input'' e offset size'])
      | Inr data \<Rightarrow> Inr (lookupLog (Address scope) (dataResLoop 0 data []) topics0 t, []))"
proof -
  have "opcode \<noteq> 0xfd" using assms(2) by auto
  then show ?thesis
    using assms index_top [of rest topics0 size' offset]
    by (simp add: OnOpcode_def Let_def)
qed

lemma OnOpcode_short:
  assumes "0xa0 < opcode" and "opcode \<le> 0xa4" and "length (StackData scope) < 3"
  shows "OnOpcode g pc opcode gas cost scope rData depth err t = Inl IndexOutOfRange"
proof -
  have "opcode \<noteq> 0xfd" using assms(2) by auto
  then show ?thesis
    using assms by (auto simp add: OnOpcode_def Let_def index_def split: sum.splits)
qed

lemma stack_shape:
  assumes "\<not> length (xs :: 'a list) < 3"
  shows "\<exists>rest c b a. xs = rest @ [c, b, a]"
proof -
  obtain ys a where 1: "xs = ys @ [a]" using assms by (cases xs rule: rev_cases) auto
  then obtain zs b where 2: "ys = zs @ [b]" using assms by (cases ys rule: rev_cases) auto
  then obtain rest c where 3: "zs = rest @ [c]" using assms 1 by (cases zs rule: rev_cases) auto
  from 1 2 3 show ?thesis by simp
qed

section \<open>Operand positions\<close>

text \<open>
  C1, as stated, fails. The claim puts \<open>offset\<close> in the second slot from the top, \<open>size\<close> in
  the third and \<open>topic\<close> in the fourth. On the stack \<open>[0, 3, 2, 1]\<close> (top \<open>1\<close>) over the memory
  \<open>10 11 12 13 14 15\<close> that reading gives offset 2, size 3 and topic 0, so the event
  \<open>{topic 0, data 0x121314}\<close>. The hook records \<open>{topic 3, data 0x1112}\<close>: offset 1 from the top
  slot, size 2 from the second slot, topic 3 from the third.
\<close>

theorem OnOpcode_operands_counterexample:
  "OnOpcode GetMemoryCopyPadded 0 0xa1 0 0
     \<lparr>StackData = [0, 3, 2, 1], Address = 0xAA,
      MemoryData = [0x10, 0x11, 0x12, 0x13, 0x14, 0x15]\<rparr>
     [] 1 None \<lparr>pre = [], isFail = False, reason = None\<rparr>
   = Inr (\<lparr>pre = [\<lparr>Caller = 0xAA, Topics0 = 3, Data = [''0x1112'']\<rparr>],
           isFail = False, reason = None\<rparr>, []) \<and>
   OnOpcode GetMemoryCopyPadded 0 0xa1 0 0
     \<lparr>StackData = [0, 3, 2, 1], Address = 0xAA,
      MemoryData = [0x10, 0x11, 0x12, 0x13, 0x14, 0x15]\<rparr>
     [] 1 None \<lparr>pre = [], isFail = False, reason = None\<rparr>
   \<noteq> Inr (\<lparr>pre = [\<lparr>Caller = 0xAA, Topics0 = 0, Data = [''0x121314'']\<rparr>],
           isFail = False, reason = None\<rparr>, [])"
  by (simp add: tracer_eval)

text \<open>
  C1, amended: for every observed instruction whose opcode is in the log-emission family, on
  a stack of at least three entries, the hook reads \<open>offset\<close> from the top slot
  (\<open>stackData[stackLen-1]\<close>), \<open>size\<close> from the second slot from the top and \<open>topic\<close> from
  the third slot from the top; the extractor is called with the offset and the size, and the
  event carries the topic. No fourth slot is read.
\<close>

theorem OnOpcode_operands:
  assumes "0xa0 < opcode" and "opcode \<le> 0xa4"
    and "StackData scope = rest @ [topic, size', offset]"
  shows "OnOpcode g pc opcode gas cost scope rData depth err t =
     (case g (MemoryData scope) (Uint64 offset) (Uint64 size') of
        Inl e \<Rightarrow> Inr (t, [Warn ''failed to copy CREATE2 input'' e offset size'])
      | Inr data \<Rightarrow>
          Inr (t\<lparr>pre := pre t @
                 [\<lparr>Caller = Address scope, Topics0 = topic, Data = dataResLoop 0 data []\<rparr>]\<rparr>, []))"
  by (simp add: OnOpcode_log [OF assms] lookupLog_def split: sum.split)

text \<open>The amended C1 at the LOG1 instruction of the counterexample.\<close>

theorem OnOpcode_operands_witness:
  "(0xa0 :: byte) < 0xa1 \<and> (0xa1 :: byte) \<le> 0xa4 \<and>
   StackData \<lparr>StackData = [0, 3, 2, 1], Address = 0xAA,
      MemoryData = [0x10, 0x11, 0x12, 0x13, 0x14, 0x15]\<rparr> = [0] @ [3, 2, 1] \<and>
   OnOpcode GetMemoryCopyPadded 0 0xa1 0 0
     \<lparr>StackData = [0, 3, 2, 1], Address = 0xAA,
      MemoryData = [0x10, 0x11, 0x12, 0x13, 0x14, 0x15]\<rparr>
     [] 1 None \<lparr>pre = [], isFail = False, reason = None\<rparr>
   = Inr (\<lparr>pre = [\<lparr>Caller = 0xAA, Topics0 = 3, Data = [''0x1112'']\<rparr>],
           isFail = False, reason = None\<rparr>, [])"
  using OnOpcode_operands [where opcode = "0xa1" and rest = "[0]" and topic = 3 and size' = 2
      and offset = 1 and g = GetMemoryCopyPadded and pc = 0 and gas = 0 and cost = 0
      and rData = "[]" and depth = 1 and err = None
      and t = "\<lparr>pre = [], isFail = False, reason = None\<rparr>"
      and scope = "\<lparr>StackData = [0, 3, 2, 1], Address = 0xAA,
        MemoryData = [0x10, 0x11, 0x12, 0x13, 0x14, 0x15]\<rparr>"]
  by (simp add: tracer_eval)

section \<open>Classification of opcodes\<close>

text \<open>
  C2, as stated, fails. The opcode immediately above the fault opcode \<open>0xfd\<close> is \<open>0xfe\<close>; the
  hook leaves the tracer unchanged on it, on a stack and a memory where the opcode \<open>0xa1\<close>,
  which lies below the fault opcode, appends an event.
\<close>

theorem OnOpcode_classification_counterexample:
  "OnOpcode GetMemoryCopyPadded 0 0xfe 0 0
     \<lparr>StackData = [0, 3, 2, 1], Address = 0xAA,
      MemoryData = [0x10, 0x11, 0x12, 0x13, 0x14, 0x15]\<rparr>
     [] 1 None \<lparr>pre = [], isFail = False, reason = None\<rparr>
   = Inr (\<lparr>pre = [], isFail = False, reason = None\<rparr>, []) \<and>
   OnOpcode GetMemoryCopyPadded 0 0xa1 0 0
     \<lparr>StackData = [0, 3, 2, 1], Address = 0xAA,
      MemoryData = [0x10, 0x11, 0x12, 0x13, 0x14, 0x15]\<rparr>
     [] 1 None \<lparr>pre = [], isFail = False, reason = None\<rparr>
   = Inr (\<lparr>pre = [\<lparr>Caller = 0xAA, Topics0 = 3, Data = [''0x1112'']\<rparr>],
           isFail = False, reason = None\<rparr>, []) \<and>
   (0xa1 :: byte) < 0xfd \<and> (0xfe :: byte) = 0xfd + 1"
  by (simp add: tracer_eval)

text \<open>
  C2, amended: there is exactly one fault opcode, \<open>0xfd\<close>, on which the hook sets
  \<open>isFail\<close> and returns; the log-emission family is the contiguous 4-wide range
  \<open>0xa1..0xa4\<close>, which lies below the fault opcode (immediately above \<open>0xa0\<close>), and on it the
  hook either panics on a stack of fewer than three entries or reads its three operands and
  processes the extraction; every other opcode leaves the tracer unchanged and logs nothing.
\<close>

theorem OnOpcode_classification:
  "(opcode = 0xfd \<longrightarrow>
      OnOpcode g pc opcode gas cost scope rData depth err t = Inr (t\<lparr>isFail := True\<rparr>, [])) \<and>
   (opcode \<in> {0xa1, 0xa2, 0xa3, 0xa4} \<longrightarrow>
      (length (StackData scope) < 3 \<and>
       OnOpcode g pc opcode gas cost scope rData depth err t = Inl IndexOutOfRange) \<or>
      (\<exists>rest topic size' offset.
         StackData scope = rest @ [topic, size', offset] \<and>
         OnOpcode g pc opcode gas cost scope rData depth err t =
           (case g (MemoryData scope) (Uint64 offset) (Uint64 size') of
              Inl e \<Rightarrow> Inr (t, [Warn ''failed to copy CREATE2 input'' e offset size'])
            | Inr data \<Rightarrow>
                Inr (lookupLog (Address scope) (dataResLoop 0 data []) topic t, [])))) \<and>
   (opcode \<notin> {0xfd, 0xa1, 0xa2, 0xa3, 0xa4} \<longrightarrow>
      OnOpcode g pc opcode gas cost scope rData depth err t = Inr (t, []))"
proof (intro conjI impI)
  assume "opcode = 0xfd"
  then show "OnOpcode g pc opcode gas cost scope rData depth err t = Inr (t\<lparr>isFail := True\<rparr>, [])"
    by (simp add: OnOpcode_fault)
next
  assume "opcode \<in> {0xa1, 0xa2, 0xa3, 0xa4}"
  then have op: "0xa0 < opcode" "opcode \<le> 0xa4" using log_family_iff [of opcode] by simp_all
  show "(length (StackData scope) < 3 \<and>
       OnOpcode g pc opcode gas cost scope rData depth err t = Inl IndexOutOfRange) \<or>
      (\<exists>rest topic size' offset.
         StackData scope = rest @ [topic, size', offset] \<and>
         OnOpcode g pc opcode gas cost scope rData depth err t =
           (case g (MemoryData scope) (Uint64 offset) (Uint64 size') of
              Inl e \<Rightarrow> Inr (t, [Warn ''failed to copy CREATE2 input'' e offset size'])
            | Inr data \<Rightarrow>
                Inr (lookupLog (Address scope) (dataResLoop 0 data []) topic t, [])))"
  proof (cases "length (StackData scope) < 3")
    case True
    then show ?thesis using OnOpcode_short [OF op] by simp
  next
    case False
    then obtain rest c b a where "StackData scope = rest @ [c, b, a]"
      using stack_shape by blast
    then show ?thesis using OnOpcode_log [OF op] by blast
  qed
next
  assume "opcode \<notin> {0xfd, 0xa1, 0xa2, 0xa3, 0xa4}"
  then have "opcode \<noteq> 0xfd" and "\<not> (0xa0 < opcode \<and> opcode \<le> 0xa4)"
    using log_family_iff [of opcode] by simp_all
  then show "OnOpcode g pc opcode gas cost scope rData depth err t = Inr (t, [])"
    by (rule OnOpcode_other)
qed

text \<open>
  The amended C2 at the fault opcode, at \<open>0xa4\<close> on a stack of four entries and on a stack of
  two, and at \<open>0xa0\<close>, which is outside the family.
\<close>

theorem OnOpcode_classification_witness:
  "OnOpcode GetMemoryCopyPadded 0 0xfd 0 0
     \<lparr>StackData = [0, 3, 2, 1], Address = 0xAA,
      MemoryData = [0x10, 0x11, 0x12, 0x13, 0x14, 0x15]\<rparr>
     [] 1 None \<lparr>pre = [], isFail = False, reason = None\<rparr>
   = Inr (\<lparr>pre = [], isFail = True, reason = None\<rparr>, []) \<and>
   OnOpcode GetMemoryCopyPadded 0 0xa4 0 0
     \<lparr>StackData = [0, 3, 2, 1], Address = 0xAA,
      MemoryData = [0x10, 0x11, 0x12, 0x13, 0x14, 0x15]\<rparr>
     [] 1 None \<lparr>pre = [], isFail = False, reason = None\<rparr>
   = Inr (\<lparr>pre = [\<lparr>Caller = 0xAA, Topics0 = 3, Data = [''0x1112'']\<rparr>],
           isFail = False, reason = None\<rparr>, []) \<and>
   OnOpcode GetMemoryCopyPadded 0 0xa4 0 0
     \<lparr>StackData = [2, 1], Address = 0xAA,
      MemoryData = [0x10, 0x11, 0x12, 0x13, 0x14, 0x15]\<rparr>
     [] 1 None \<lparr>pre = [], isFail = False, reason = None\<rparr>
   = Inl IndexOutOfRange \<and>
   OnOpcode GetMemoryCopyPadded 0 0xa0 0 0
     \<lparr>StackData = [0, 3, 2, 1], Address = 0xAA,
      MemoryData = [0x10, 0x11, 0x12, 0x13, 0x14, 0x15]\<rparr>
     [] 1 None \<lparr>pre = [], isFail = False, reason = None\<rparr>
   = Inr (\<lparr>pre = [], isFail = False, reason = None\<rparr>, [])"
  using
    OnOpcode_classification [where opcode = "0xfd" and g = GetMemoryCopyPadded and pc = 0
      and gas = 0 and cost = 0 and rData = "[]" and depth = 1 and err = None
      and t = "\<lparr>pre = [], isFail = False, reason = None\<rparr>"
      and scope = "\<lparr>StackData = [0, 3, 2, 1], Address = 0xAA,
        MemoryData = [0x10, 0x11, 0x12, 0x13, 0x14, 0x15]\<rparr>"]
    OnOpcode_classification [where opcode = "0xa4" and g = GetMemoryCopyPadded and pc = 0
      and gas = 0 and cost = 0 and rData = "[]" and depth = 1 and err = None
      and t = "\<lparr>pre = [], isFail = False, reason = None\<rparr>"
      and scope = "\<lparr>StackData = [0, 3, 2, 1], Address = 0xAA,
        MemoryData = [0x10, 0x11, 0x12, 0x13, 0x14, 0x15]\<rparr>"]
    OnOpcode_classification [where opcode = "0xa4" and g = GetMemoryCopyPadded and pc = 0
      and gas = 0 and cost = 0 and rData = "[]" and depth = 1 and err = None
      and t = "\<lparr>pre = [], isFail = False, reason = None\<rparr>"
      and scope = "\<lparr>StackData = [2, 1], Address = 0xAA,
        MemoryData = [0x10, 0x11, 0x12, 0x13, 0x14, 0x15]\<rparr>"]
    OnOpcode_classification [where opcode = "0xa0" and g = GetMemoryCopyPadded and pc = 0
      and gas = 0 and cost = 0 and rData = "[]" and depth = 1 and err = None
      and t = "\<lparr>pre = [], isFail = False, reason = None\<rparr>"
      and scope = "\<lparr>StackData = [0, 3, 2, 1], Address = 0xAA,
        MemoryData = [0x10, 0x11, 0x12, 0x13, 0x14, 0x15]\<rparr>"]
  by (simp add: tracer_eval)

section \<open>The memory slice extractor\<close>

text \<open>
  C3: for every memory buffer and every signed 64-bit offset and size, when both are not
  negative the extraction returns exactly \<open>size\<close> bytes, the byte at position \<open>i\<close> being the
  memory's byte at \<open>offset + i\<close> where that lies within the memory and a zero byte beyond it;
  when the offset or the size is negative the extraction fails with the range error, whatever
  the memory holds.
\<close>

theorem GetMemoryCopyPadded_padded:
  "(0 \<le> sint offset \<and> 0 \<le> sint size' \<longrightarrow>
      (\<exists>res. GetMemoryCopyPadded m offset size' = Inr res \<and>
         length res = nat (sint size') \<and>
         (\<forall>i < nat (sint size').
            res ! i = (if nat (sint offset) + i < length m then m ! (nat (sint offset) + i)
                       else 0)))) \<and>
   (sint offset < 0 \<or> sint size' < 0 \<longrightarrow> GetMemoryCopyPadded m offset size' = Inl RangeError)"
  by (simp add: GetMemoryCopyPadded_def)

text \<open>
  C3 at offset 0 and size 64 on a memory of 32 bytes: the memory followed by 32 zero bytes;
  and at offset \<open>-1\<close> and at size \<open>-1\<close>.
\<close>

theorem GetMemoryCopyPadded_padded_witness:
  "0 \<le> sint (0 :: int64) \<and> 0 \<le> sint (64 :: int64) \<and>
   GetMemoryCopyPadded (replicate 32 0xab) 0 64 = Inr (replicate 32 0xab @ replicate 32 0) \<and>
   sint (- 1 :: int64) < 0 \<and>
   GetMemoryCopyPadded (replicate 32 0xab) (- 1) 64 = Inl RangeError \<and>
   GetMemoryCopyPadded (replicate 32 0xab) 0 (- 1) = Inl RangeError"
proof -
  have nonneg: "0 \<le> sint (0 :: int64) \<and> 0 \<le> sint (64 :: int64)" by simp
  obtain res where res: "GetMemoryCopyPadded (replicate 32 0xab) 0 64 = Inr res"
    and len: "length res = 64"
    and nth: "\<forall>i<64. res ! i = (if i < 32 then replicate 32 0xab ! i else 0)"
    using GetMemoryCopyPadded_padded [of 0 64 "replicate 32 0xab"] nonneg by auto
  have "res = replicate 32 0xab @ replicate 32 0"
    using len nth by (intro nth_equalityI) (auto simp: nth_append)
  moreover have "GetMemoryCopyPadded (replicate 32 0xab) (- 1) 64 = Inl RangeError"
    using GetMemoryCopyPadded_padded [of "- 1" 64 "replicate 32 0xab"] by simp
  moreover have "GetMemoryCopyPadded (replicate 32 0xab) 0 (- 1) = Inl RangeError"
    using GetMemoryCopyPadded_padded [of 0 "- 1" "replicate 32 0xab"] by simp
  ultimately show ?thesis using res by simp
qed

text \<open>
  The same result as a copy followed by padding: the part of the memory from \<open>offset\<close> on, cut
  to \<open>size\<close> bytes, then as many zero bytes as the memory falls short.
\<close>

lemma GetMemoryCopyPadded_take_drop:
  assumes "0 \<le> sint offset" and "0 \<le> sint size'"
  shows "GetMemoryCopyPadded m offset size' =
     Inr (take (nat (sint size')) (drop (nat (sint offset)) m) @
          replicate (nat (sint size') - (length m - nat (sint offset))) 0)"
proof -
  let ?o = "nat (sint offset)" and ?n = "nat (sint size')"
  have "map (\<lambda>p. if p < length m then m ! p else 0) [?o..<?o + ?n] =
        take ?n (drop ?o m) @ replicate (?n - (length m - ?o)) 0"
  proof (intro nth_equalityI)
    show "length (map (\<lambda>p. if p < length m then m ! p else 0) [?o..<?o + ?n]) =
        length (take ?n (drop ?o m) @ replicate (?n - (length m - ?o)) 0)"
      by auto
  next
    fix i
    assume "i < length (map (\<lambda>p. if p < length m then m ! p else 0) [?o..<?o + ?n])"
    then have i: "i < ?n" by simp
    show "map (\<lambda>p. if p < length m then m ! p else 0) [?o..<?o + ?n] ! i =
        (take ?n (drop ?o m) @ replicate (?n - (length m - ?o)) 0) ! i"
    proof (cases "?o + i < length m")
      case True
      then have "i < length m - ?o" by arith
      with i True show ?thesis by (simp add: nth_append)
    next
      case False
      then have ge: "\<not> i < length m - ?o" by arith
      with i have "i - (length m - ?o) < ?n - (length m - ?o)" by arith
      with i False ge show ?thesis by (simp add: nth_append min_def)
    qed
  qed
  with assms show ?thesis by (simp add: GetMemoryCopyPadded_def)
qed

section \<open>Hexadecimal chunks\<close>

lemma hextable_nth: "d < 16 \<Longrightarrow> hextable ! d = specLowerHexDigit d"
proof -
  assume "d < 16"
  then have "d \<in> {0, 1, 2, 3, 4, 5, 6, 7, 8, 9, 10, 11, 12, 13, 14, 15}"
    by (simp only: insert_iff empty_iff) arith
  then have "of_char (hextable ! d) = (if d < 10 then 48 + d else 87 + d)"
    by (auto simp: hextable_def)
  then have "char_of (of_char (hextable ! d) :: nat) = specLowerHexDigit d"
    by (simp only: specLowerHexDigit_def)
  then show ?thesis by simp
qed

lemma nibbles:
  "unat (drop_bit 4 (v :: byte)) = unat v div 16"
  "unat (v AND 0x0f) = unat v mod 16"
proof -
  show "unat (drop_bit 4 v) = unat v div 16"
    by (simp add: unat_drop_bit_eq drop_bit_eq_div unat_div)
  have "v AND 0x0f = take_bit 4 v"
    by (simp add: take_bit_eq_mask mask_eq_exp_minus_1)
  then show "unat (v AND 0x0f) = unat v mod 16"
    by (simp add: take_bit_eq_mod unat_mod)
qed

lemma EncodeToString_specLowerHex: "EncodeToString src = specLowerHex src"
proof -
  have "unat v div 16 < 16" for v :: byte
    using unsigned_less [of v, where 'a = nat] by simp
  then show ?thesis
    by (simp add: EncodeToString_def specLowerHex_def nibbles hextable_nth)
qed

lemma length_specLowerHex: "length (specLowerHex bs) = 2 * length bs"
  by (induction bs) (simp_all add: specLowerHex_def)

lemma dataResLoop_step:
  "i < length data \<Longrightarrow>
   dataResLoop i data acc =
   dataResLoop (i + 32) data
     (acc @ [''0x'' @ EncodeToString (take (min (i + 32) (length data) - i) (drop i data))])"
  by (subst dataResLoop.simps) (simp add: Let_def min_def)

lemma dataResLoop_done: "\<not> i < length data \<Longrightarrow> dataResLoop i data acc = acc"
  by (subst dataResLoop.simps) simp

lemma dataResLoop_chunks:
  "dataResLoop (32 * j) data acc =
   acc @ map (\<lambda>k. ''0x'' @ EncodeToString
                 (take (min (32 * (k + 1)) (length data) - 32 * k) (drop (32 * k) data)))
           [j..<(length data + 31) div 32]"
  (is "_ = acc @ map ?chunk _")
proof (induction "length data - 32 * j" arbitrary: j acc rule: less_induct)
  case less
  show ?case
  proof (cases "32 * j < length data")
    case True
    then have lt: "j < (length data + 31) div 32" by simp
    have s: "32 * j + 32 = 32 * Suc j" by simp
    have "length data - 32 * Suc j < length data - 32 * j" using True by simp
    then have IH: "dataResLoop (32 * Suc j) data (acc @ [?chunk j]) =
          (acc @ [?chunk j]) @ map ?chunk [Suc j..<(length data + 31) div 32]"
      by (rule less)
    have "dataResLoop (32 * j) data acc = dataResLoop (32 * Suc j) data (acc @ [?chunk j])"
      using dataResLoop_step [OF True, of acc] unfolding s by simp
    with IH lt show ?thesis by (simp add: upt_conv_Cons)
  next
    case False
    then have "(length data + 31) div 32 \<le> j" by simp
    with False show ?thesis by (simp add: dataResLoop_done)
  qed
qed

lemma ceiling_div_32: "(n + 31) div 32 = nat \<lceil>real n / 32\<rceil>"
proof -
  have "\<lceil>real n / 32\<rceil> = \<lceil>real_of_int (int n) / real_of_int 32\<rceil>" by simp
  also have "\<dots> = - ((- int n) div 32)" by (simp only: ceiling_divide_eq_div)
  finally have "\<lceil>real n / 32\<rceil> = - ((- int n) div 32)" .
  moreover have "- ((- int n) div 32) = int ((n + 31) div 32)" by linarith
  ultimately show ?thesis by simp
qed

text \<open>
  C4: when the extraction succeeds with a byte sequence \<open>data\<close>, the event appended has
  exactly \<open>ceil(length data / 32)\<close> strings, and the \<open>i\<close>-th string is \<open>0x\<close> followed by
  the lower-case hexadecimal encoding of the bytes \<open>[32 * i, min (32 * (i + 1)) (length data))\<close>
  of \<open>data\<close>: a last chunk of fewer than 32 bytes is encoded as it is.
\<close>

theorem OnOpcode_event_data:
  assumes "0xa0 < opcode" and "opcode \<le> 0xa4"
    and "StackData scope = rest @ [topic, size', offset]"
    and "g (MemoryData scope) (Uint64 offset) (Uint64 size') = Inr data"
  shows "\<exists>chunks.
     OnOpcode g pc opcode gas cost scope rData depth err t =
       Inr (t\<lparr>pre := pre t @ [\<lparr>Caller = Address scope, Topics0 = topic, Data = chunks\<rparr>]\<rparr>, []) \<and>
     length chunks = nat \<lceil>real (length data) / 32\<rceil> \<and>
     (\<forall>i < length chunks.
        chunks ! i =
          ''0x'' @ specLowerHex (take (min (32 * (i + 1)) (length data) - 32 * i) (drop (32 * i) data)))"
proof -
  have run: "OnOpcode g pc opcode gas cost scope rData depth err t =
       Inr (t\<lparr>pre := pre t @
              [\<lparr>Caller = Address scope, Topics0 = topic, Data = dataResLoop 0 data []\<rparr>]\<rparr>, [])"
    by (simp add: OnOpcode_log [OF assms(1,2,3)] assms(4) lookupLog_def)
  have chunks: "dataResLoop 0 data [] =
      map (\<lambda>k. ''0x'' @ specLowerHex (take (min (32 * (k + 1)) (length data) - 32 * k) (drop (32 * k) data)))
        [0..<(length data + 31) div 32]"
    using dataResLoop_chunks [of 0 data "[]"] by (simp add: EncodeToString_specLowerHex)
  have "length (dataResLoop 0 data []) = nat \<lceil>real (length data) / 32\<rceil>"
    by (simp add: chunks ceiling_div_32)
  moreover have "\<forall>i < length (dataResLoop 0 data []).
        dataResLoop 0 data [] ! i =
          ''0x'' @ specLowerHex (take (min (32 * (i + 1)) (length data) - 32 * i) (drop (32 * i) data))"
    by (simp add: chunks)
  ultimately show ?thesis using run by blast
qed

text \<open>C4 at size 33 on a memory of one byte: two strings, of 32 bytes and of one byte.\<close>

theorem OnOpcode_event_data_witness:
  "(0xa0 :: byte) < 0xa1 \<and> (0xa1 :: byte) \<le> 0xa4 \<and>
   GetMemoryCopyPadded [0x42] (Uint64 0) (Uint64 33) = Inr (0x42 # replicate 32 0) \<and>
   OnOpcode GetMemoryCopyPadded 0 0xa1 0 0
     \<lparr>StackData = [7, 33, 0], Address = 0xAA, MemoryData = [0x42]\<rparr>
     [] 1 None \<lparr>pre = [], isFail = False, reason = None\<rparr>
   = Inr (\<lparr>pre = [\<lparr>Caller = 0xAA, Topics0 = 7,
             Data = [''0x4200000000000000000000000000000000000000000000000000000000000000'',
                     ''0x00'']\<rparr>],
           isFail = False, reason = None\<rparr>, [])"
proof -
  have rep: "replicate 32 (0 :: byte) = [0, 0, 0, 0, 0, 0, 0, 0, 0, 0, 0, 0, 0, 0, 0, 0,
      0, 0, 0, 0, 0, 0, 0, 0, 0, 0, 0, 0, 0, 0, 0, 0]"
    by (simp add: numeral_eq_Suc)
  have ex: "GetMemoryCopyPadded [0x42] (Uint64 0) (Uint64 33) = Inr (0x42 # replicate 32 0)"
    by (simp add: tracer_eval rep)
  obtain chunks where
    run: "OnOpcode GetMemoryCopyPadded 0 0xa1 0 0
        \<lparr>StackData = [7, 33, 0], Address = 0xAA, MemoryData = [0x42]\<rparr>
        [] 1 None \<lparr>pre = [], isFail = False, reason = None\<rparr>
      = Inr (\<lparr>pre = [\<lparr>Caller = 0xAA, Topics0 = 7, Data = chunks\<rparr>],
              isFail = False, reason = None\<rparr>, [])"
    and len: "length chunks = 2"
    and nth: "\<forall>i < length chunks. chunks ! i =
        ''0x'' @ specLowerHex (take (min (32 * (i + 1)) 33 - 32 * i) (drop (32 * i) (0x42 # replicate 32 0)))"
    using OnOpcode_event_data [where opcode = "0xa1" and rest = "[]" and topic = 7
        and size' = 33 and offset = 0 and g = GetMemoryCopyPadded and pc = 0 and gas = 0
        and cost = 0 and rData = "[]" and depth = 1 and err = None
        and data = "0x42 # replicate 32 0"
        and t = "\<lparr>pre = [], isFail = False, reason = None\<rparr>"
        and scope = "\<lparr>StackData = [7, 33, 0], Address = 0xAA, MemoryData = [0x42]\<rparr>"] ex
    by auto
  have "chunks ! 0 = ''0x4200000000000000000000000000000000000000000000000000000000000000''"
    using nth len by (simp add: rep EncodeToString_specLowerHex [symmetric] tracer_eval)
  moreover have "chunks ! 1 = ''0x00''"
    using nth len by (simp add: rep EncodeToString_specLowerHex [symmetric] tracer_eval)
  ultimately have "chunks = [''0x4200000000000000000000000000000000000000000000000000000000000000'', ''0x00'']"
    using len by (intro nth_equalityI) (auto simp: less_Suc_eq numeral_2_eq_2)
  with run ex show ?thesis by simp
qed

section \<open>The result\<close>

text \<open>
  C5: \<open>GetResult\<close> has a dual-signal contract. If serialising the report fails, it returns a
  nil report with the serialisation error. If serialising succeeds, it returns the report
  with the tracer's reason as the error, which is nil when no stop set it; so a report that
  is not nil does not mean there is no error.
\<close>

theorem GetResult_dual_signal:
  "(marshal (pre t, isFail t, reason t) = Inl e \<longrightarrow> GetResult marshal t = (None, Some e)) \<and>
   (marshal (pre t, isFail t, reason t) = Inr res \<longrightarrow>
      GetResult marshal t = (Some res, reason t))"
  by (simp add: GetResult_def)

text \<open>
  C5 with a serialiser that fails, with one that succeeds on a fresh tracer, and with one
  that succeeds on a stopped tracer: there the report and the error are both present.
\<close>

theorem GetResult_dual_signal_witness:
  "GetResult (\<lambda>r. Inl (ErrorString ''json: unsupported value''))
     \<lparr>pre = [], isFail = False, reason = None\<rparr>
   = (None, Some (ErrorString ''json: unsupported value'')) \<and>
   GetResult (\<lambda>r. Inr [0x7b, 0x7d]) \<lparr>pre = [], isFail = False, reason = None\<rparr>
   = (Some [0x7b, 0x7d], None) \<and>
   GetResult (\<lambda>r. Inr [0x7b, 0x7d])
     (Stop (Some (ErrorString ''execution timeout'')) \<lparr>pre = [], isFail = False, reason = None\<rparr>)
   = (Some [0x7b, 0x7d], Some (ErrorString ''execution timeout''))"
  using
    GetResult_dual_signal [of "\<lambda>r. Inl (ErrorString ''json: unsupported value'')"
      "\<lparr>pre = [], isFail = False, reason = None\<rparr>" "ErrorString ''json: unsupported value''"]
    GetResult_dual_signal [of "\<lambda>r. Inr [0x7b, 0x7d]"
      "\<lparr>pre = [], isFail = False, reason = None\<rparr>" _ "[0x7b, 0x7d]"]
    GetResult_dual_signal [of "\<lambda>r. Inr [0x7b, 0x7d]"
      "Stop (Some (ErrorString ''execution timeout'')) \<lparr>pre = [], isFail = False, reason = None\<rparr>"
      _ "[0x7b, 0x7d]"]
  by (simp add: Stop_def)

section \<open>Extraction failure\<close>

text \<open>
  C6: for every observed log-family instruction whose extraction fails, the hook returns the
  tracer it was given (no event appended, \<open>isFail\<close> and \<open>reason\<close> as before) and logs one
  warning; the hook returns normally, so the extraction error does not reach its caller.
\<close>

theorem OnOpcode_extraction_failure:
  assumes "0xa0 < opcode" and "opcode \<le> 0xa4"
    and "StackData scope = rest @ [topic, size', offset]"
    and "g (MemoryData scope) (Uint64 offset) (Uint64 size') = Inl e"
  shows "OnOpcode g pc opcode gas cost scope rData depth err t =
     Inr (t, [Warn ''failed to copy CREATE2 input'' e offset size'])"
  by (simp add: OnOpcode_log [OF assms(1,2,3)] assms(4))

text \<open>C6 at a LOG2 whose offset operand is \<open>2^64 - 1\<close>, that is \<open>-1\<close> as an \<open>int64\<close>.\<close>

theorem OnOpcode_extraction_failure_witness:
  "(0xa0 :: byte) < 0xa2 \<and> (0xa2 :: byte) \<le> 0xa4 \<and>
   GetMemoryCopyPadded [0x42] (Uint64 0xffffffffffffffff) (Uint64 1) = Inl RangeError \<and>
   OnOpcode GetMemoryCopyPadded 0 0xa2 0 0
     \<lparr>StackData = [7, 1, 0xffffffffffffffff], Address = 0xAA, MemoryData = [0x42]\<rparr>
     [] 1 None
     \<lparr>pre = [\<lparr>Caller = 0xBB, Topics0 = 5, Data = [''0x01'']\<rparr>], isFail = False, reason = None\<rparr>
   = Inr (\<lparr>pre = [\<lparr>Caller = 0xBB, Topics0 = 5, Data = [''0x01'']\<rparr>], isFail = False,
            reason = None\<rparr>,
          [Warn ''failed to copy CREATE2 input'' RangeError 0xffffffffffffffff 1])"
proof -
  have ex: "GetMemoryCopyPadded [0x42] (Uint64 0xffffffffffffffff) (Uint64 1) = Inl RangeError"
    by (simp add: GetMemoryCopyPadded_def Uint64_def)
  show ?thesis
    using OnOpcode_extraction_failure [where opcode = "0xa2" and rest = "[]" and topic = 7
        and size' = 1 and offset = "0xffffffffffffffff" and g = GetMemoryCopyPadded
        and e = RangeError and pc = 0 and gas = 0 and cost = 0 and rData = "[]" and depth = 1
        and err = None
        and t = "\<lparr>pre = [\<lparr>Caller = 0xBB, Topics0 = 5, Data = [''0x01'']\<rparr>], isFail = False,
            reason = None\<rparr>"
        and scope = "\<lparr>StackData = [7, 1, 0xffffffffffffffff], Address = 0xAA,
            MemoryData = [0x42]\<rparr>"] ex
    by simp
qed

section \<open>The failure flag and the reason\<close>

lemma step_isFail: "isFail t \<Longrightarrow> step g c t = Inr t' \<Longrightarrow> isFail t'"
proof (cases c)
  case (Observe pc opcode gas cost scope rData depth err)
  assume "isFail t" and "step g c t = Inr t'"
  then show ?thesis
    using Observe
    by (auto simp: OnOpcode_def Let_def lookupLog_def split: if_splits sum.splits)
qed (auto simp: OnTxStart_def OnTxEnd_def Stop_def)

lemma run_isFail: "isFail t \<Longrightarrow> run g cs t = Inr t' \<Longrightarrow> isFail t'"
proof (induction cs arbitrary: t)
  case Nil
  then show ?case by simp
next
  case (Cons c cs)
  then show ?case by (auto split: sum.splits dest: step_isFail)
qed

lemma step_reason:
  "\<forall>r. c \<noteq> StopCall r \<Longrightarrow> step g c t = Inr t' \<Longrightarrow> reason t' = reason t"
proof (cases c)
  case (Observe pc opcode gas cost scope rData depth err)
  assume "step g c t = Inr t'"
  then show ?thesis
    using Observe
    by (auto simp: OnOpcode_def Let_def lookupLog_def split: if_splits sum.splits)
qed (auto simp: OnTxStart_def OnTxEnd_def)

lemma run_reason:
  "\<forall>r. StopCall r \<notin> set cs \<Longrightarrow> run g cs t = Inr t' \<Longrightarrow> reason t' = reason t"
proof (induction cs arbitrary: t)
  case Nil
  then show ?case by simp
next
  case (Cons c cs)
  from Cons.prems(1) have c: "\<forall>r. c \<noteq> StopCall r" and cs: "\<forall>r. StopCall r \<notin> set cs"
    by auto
  from Cons.prems(2) obtain t1 where 1: "step g c t = Inr t1" and 2: "run g cs t1 = Inr t'"
    by (auto split: sum.splits)
  from step_reason [OF c 1] Cons.IH [OF cs 2] show ?case by simp
qed

text \<open>
  A session in which the host keeps its guarantee does not panic: every call returns.
\<close>

lemma step_returns: "stackAvailable c \<Longrightarrow> \<exists>t'. step g c t = Inr t'"
proof (cases c)
  case (Observe pc opcode gas cost scope rData depth err)
  assume ok: "stackAvailable c"
  show ?thesis
  proof (cases "0xa0 < opcode \<and> opcode \<le> 0xa4")
    case True
    with ok Observe have "\<not> length (StackData scope) < 3" by simp
    then obtain rest c b a where "StackData scope = rest @ [c, b, a]"
      using stack_shape by blast
    then show ?thesis
      using True Observe OnOpcode_log [of opcode scope rest c b a g pc gas cost rData depth err t]
      by (auto split: sum.splits)
  next
    case False
    then show ?thesis
      using Observe OnOpcode_fault [of g pc gas cost scope rData depth err t]
        OnOpcode_other [of opcode g pc gas cost scope rData depth err t]
      by (cases "opcode = 0xfd") auto
  qed
qed simp_all

lemma run_returns: "list_all stackAvailable cs \<Longrightarrow> \<exists>t'. run g cs t = Inr t'"
proof (induction cs arbitrary: t)
  case Nil
  then show ?case by simp
next
  case (Cons c cs)
  then obtain t1 where "step g c t = Inr t1" using step_returns [of c g t] by auto
  with Cons show ?case by simp
qed

text \<open>
  C7: the fault instruction sets \<open>isFail\<close>; from a tracer with \<open>isFail\<close> set, every
  sequence of calls (observe, stop and the transaction hooks) that returns leaves it set; and
  on such a tracer a log-family instruction whose extraction succeeds still appends its event.
\<close>

theorem isFail_monotonic:
  "OnOpcode g pc 0xfd gas cost scope rData depth err t = Inr (t\<lparr>isFail := True\<rparr>, []) \<and>
   (isFail t \<longrightarrow> run g cs t = Inr t' \<longrightarrow> isFail t') \<and>
   (isFail t \<longrightarrow> 0xa0 < opcode \<longrightarrow> opcode \<le> 0xa4 \<longrightarrow>
    StackData scope = rest @ [topic, size', offset] \<longrightarrow>
    g (MemoryData scope) (Uint64 offset) (Uint64 size') = Inr data \<longrightarrow>
      (\<exists>t''. OnOpcode g pc opcode gas cost scope rData depth err t = Inr (t'', []) \<and>
         pre t'' = pre t @
           [\<lparr>Caller = Address scope, Topics0 = topic, Data = dataResLoop 0 data []\<rparr>] \<and>
         isFail t''))"
proof (intro conjI impI)
  show "OnOpcode g pc 0xfd gas cost scope rData depth err t = Inr (t\<lparr>isFail := True\<rparr>, [])"
    by (rule OnOpcode_fault)
next
  assume "isFail t" and "run g cs t = Inr t'"
  then show "isFail t'" by (rule run_isFail)
next
  assume failed: "isFail t" and op: "0xa0 < opcode" "opcode \<le> 0xa4"
    and st: "StackData scope = rest @ [topic, size', offset]"
    and ex: "g (MemoryData scope) (Uint64 offset) (Uint64 size') = Inr data"
  have "OnOpcode g pc opcode gas cost scope rData depth err t =
      Inr (lookupLog (Address scope) (dataResLoop 0 data []) topic t, [])"
    by (simp add: OnOpcode_log [OF op st] ex)
  with failed show "\<exists>t''. OnOpcode g pc opcode gas cost scope rData depth err t = Inr (t'', []) \<and>
         pre t'' = pre t @
           [\<lparr>Caller = Address scope, Topics0 = topic, Data = dataResLoop 0 data []\<rparr>] \<and>
         isFail t''"
    by (simp add: lookupLog_def)
qed

text \<open>
  C7 on a session: the fault instruction, then another instruction, a LOG1 and the end of
  the transaction. The LOG1 is captured and \<open>isFail\<close> stays set.
\<close>

theorem isFail_monotonic_witness:
  "OnOpcode GetMemoryCopyPadded 0 0xfd 0 0
     \<lparr>StackData = [], Address = 0xAA, MemoryData = []\<rparr> [] 1 None
     \<lparr>pre = [], isFail = False, reason = None\<rparr>
   = Inr (\<lparr>pre = [], isFail = True, reason = None\<rparr>, []) \<and>
   isFail \<lparr>pre = [], isFail = True, reason = None\<rparr> \<and>
   run GetMemoryCopyPadded
     [Observe 0 0x01 0 0 \<lparr>StackData = [], Address = 0xAA, MemoryData = []\<rparr> [] 1 None,
      Observe 0 0xa1 0 0 \<lparr>StackData = [7, 1, 0], Address = 0xAA, MemoryData = [0x42]\<rparr> [] 1 None,
      TxEnd None]
     \<lparr>pre = [], isFail = True, reason = None\<rparr>
   = Inr \<lparr>pre = [\<lparr>Caller = 0xAA, Topics0 = 7, Data = [''0x42'']\<rparr>], isFail = True,
          reason = None\<rparr> \<and>
   isFail \<lparr>pre = [\<lparr>Caller = 0xAA, Topics0 = 7, Data = [''0x42'']\<rparr>], isFail = True,
          reason = None\<rparr> \<and>
   OnOpcode GetMemoryCopyPadded 0 0xa1 0 0
     \<lparr>StackData = [7, 1, 0], Address = 0xAA, MemoryData = [0x42]\<rparr> [] 1 None
     \<lparr>pre = [], isFail = True, reason = None\<rparr>
   = Inr (\<lparr>pre = [\<lparr>Caller = 0xAA, Topics0 = 7, Data = [''0x42'']\<rparr>], isFail = True,
          reason = None\<rparr>, [])"
  using isFail_monotonic [where g = GetMemoryCopyPadded and pc = 0 and gas = 0 and cost = 0
      and rData = "[]" and depth = 1 and err = None
      and scope = "\<lparr>StackData = [7, 1, 0], Address = 0xAA, MemoryData = [0x42]\<rparr>"
      and t = "\<lparr>pre = [], isFail = True, reason = None\<rparr>"
      and cs = "[Observe 0 0x01 0 0 \<lparr>StackData = [], Address = 0xAA, MemoryData = []\<rparr> [] 1 None,
        Observe 0 0xa1 0 0 \<lparr>StackData = [7, 1, 0], Address = 0xAA, MemoryData = [0x42]\<rparr> [] 1 None,
        TxEnd None]"
      and t' = "\<lparr>pre = [\<lparr>Caller = 0xAA, Topics0 = 7, Data = [''0x42'']\<rparr>], isFail = True,
          reason = None\<rparr>"
      and opcode = "0xa1" and rest = "[]" and topic = 7 and size' = 1 and offset = 0
      and data = "[0x42]"]
  by (simp add: tracer_eval OnTxEnd_def)

text \<open>
  C8: for every pair of reasons, \<open>Stop reasonA\<close> followed by \<open>Stop reasonB\<close> leaves
  \<open>reason = reasonB\<close> and \<open>isFail = true\<close>; each \<open>Stop\<close> sets \<open>isFail\<close>, whatever it was.
\<close>

theorem Stop_last_writer_wins:
  "reason (Stop reasonB (Stop reasonA t)) = reasonB \<and>
   isFail (Stop reasonB (Stop reasonA t)) \<and>
   isFail (Stop reasonA t) \<and>
   run g [StopCall reasonA, StopCall reasonB] t = Inr (t\<lparr>isFail := True, reason := reasonB\<rparr>)"
  by (simp add: Stop_def)

text \<open>
  C9, as stated, fails. A stop sets the reason \<open>first\<close>; a second stop of the same session
  replaces it with \<open>second\<close>.
\<close>

theorem reason_immutable_counterexample:
  "run GetMemoryCopyPadded [StopCall (Some (ErrorString ''first''))]
     \<lparr>pre = [], isFail = False, reason = None\<rparr>
   = Inr \<lparr>pre = [], isFail = True, reason = Some (ErrorString ''first'')\<rparr> \<and>
   run GetMemoryCopyPadded [StopCall (Some (ErrorString ''second''))]
     \<lparr>pre = [], isFail = True, reason = Some (ErrorString ''first'')\<rparr>
   = Inr \<lparr>pre = [], isFail = True, reason = Some (ErrorString ''second'')\<rparr> \<and>
   reason (Stop (Some (ErrorString ''second''))
     \<lparr>pre = [], isFail = True, reason = Some (ErrorString ''first'')\<rparr>)
   \<noteq> reason \<lparr>pre = [], isFail = True, reason = Some (ErrorString ''first'')\<rparr>"
  by (simp add: Stop_def)

text \<open>
  C9, amended: once the reason has been set, no later observe call and no later transaction
  hook changes it; only another stop call replaces it. For every sequence of calls without
  a stop that returns, the reason after it is the reason before it.
\<close>

theorem reason_kept_without_stop:
  assumes "\<forall>r. StopCall r \<notin> set cs" and "run g cs t = Inr t'"
  shows "reason t' = reason t"
  using assms by (rule run_reason)

text \<open>
  The amended C9 on a stopped tracer: the fault instruction, the start of a transaction, a
  LOG1 and the end of the transaction keep the reason \<open>first\<close>.
\<close>

theorem reason_kept_without_stop_witness:
  "(\<forall>r. StopCall r \<notin> set
     [Observe 0 0xfd 0 0 \<lparr>StackData = [], Address = 0xAA, MemoryData = []\<rparr> [] 1 None,
      TxStart 0xCC,
      Observe 0 0xa1 0 0 \<lparr>StackData = [7, 1, 0], Address = 0xAA, MemoryData = [0x42]\<rparr> [] 1 None,
      TxEnd None]) \<and>
   run GetMemoryCopyPadded
     [Observe 0 0xfd 0 0 \<lparr>StackData = [], Address = 0xAA, MemoryData = []\<rparr> [] 1 None,
      TxStart 0xCC,
      Observe 0 0xa1 0 0 \<lparr>StackData = [7, 1, 0], Address = 0xAA, MemoryData = [0x42]\<rparr> [] 1 None,
      TxEnd None]
     (Stop (Some (ErrorString ''first'')) \<lparr>pre = [], isFail = False, reason = None\<rparr>)
   = Inr \<lparr>pre = [\<lparr>Caller = 0xAA, Topics0 = 7, Data = [''0x42'']\<rparr>], isFail = True,
          reason = Some (ErrorString ''first'')\<rparr> \<and>
   reason \<lparr>pre = [\<lparr>Caller = 0xAA, Topics0 = 7, Data = [''0x42'']\<rparr>], isFail = True,
          reason = Some (ErrorString ''first'')\<rparr>
   = reason (Stop (Some (ErrorString ''first'')) \<lparr>pre = [], isFail = False, reason = None\<rparr>)"
proof -
  have no_stop: "\<forall>r. StopCall r \<notin> set
     [Observe 0 0xfd 0 0 \<lparr>StackData = [], Address = 0xAA, MemoryData = []\<rparr> [] 1 None,
      TxStart 0xCC,
      Observe 0 0xa1 0 0 \<lparr>StackData = [7, 1, 0], Address = 0xAA, MemoryData = [0x42]\<rparr> [] 1 None,
      TxEnd None]"
    by simp
  have ran: "run GetMemoryCopyPadded
     [Observe 0 0xfd 0 0 \<lparr>StackData = [], Address = 0xAA, MemoryData = []\<rparr> [] 1 None,
      TxStart 0xCC,
      Observe 0 0xa1 0 0 \<lparr>StackData = [7, 1, 0], Address = 0xAA, MemoryData = [0x42]\<rparr> [] 1 None,
      TxEnd None]
     (Stop (Some (ErrorString ''first'')) \<lparr>pre = [], isFail = False, reason = None\<rparr>)
   = Inr \<lparr>pre = [\<lparr>Caller = 0xAA, Topics0 = 7, Data = [''0x42'']\<rparr>], isFail = True,
          reason = Some (ErrorString ''first'')\<rparr>"
    by (simp add: tracer_eval OnTxStart_def OnTxEnd_def Stop_def)
  from reason_kept_without_stop [OF no_stop ran] no_stop ran show ?thesis by simp
qed

section \<open>Operands as signed 64-bit integers\<close>

lemma sint_Uint64_neg: "sint (Uint64 x) < 0 \<longleftrightarrow> bit x 63"
  using bit_last_iff [of "Uint64 x"] by (simp add: Uint64_def bit_word_ucast_iff)

lemma uint_Uint64: "uint (Uint64 x) = uint x mod 2 ^ 64"
  by (simp add: Uint64_def unsigned_ucast_eq take_bit_eq_mod)

text \<open>
  C10: for every observed log-family instruction the extractor is called with the low 64 bits
  of the 256-bit \<open>offset\<close> and \<open>size\<close> operands, read as signed 64-bit integers. When bit
  63 of either operand is set, that argument is negative, the extraction fails with the
  range error, and the hook returns the tracer unchanged with one warning: the event is
  dropped.
\<close>

theorem OnOpcode_int64_operands:
  assumes "0xa0 < opcode" and "opcode \<le> 0xa4"
    and "StackData scope = rest @ [topic, size', offset]"
  shows "OnOpcode g pc opcode gas cost scope rData depth err t =
     (case g (MemoryData scope) (Uint64 offset) (Uint64 size') of
        Inl e \<Rightarrow> Inr (t, [Warn ''failed to copy CREATE2 input'' e offset size'])
      | Inr data \<Rightarrow> Inr (lookupLog (Address scope) (dataResLoop 0 data []) topic t, [])) \<and>
     uint (Uint64 offset) = uint offset mod 2 ^ 64 \<and>
     uint (Uint64 size') = uint size' mod 2 ^ 64 \<and>
     (bit offset 63 \<or> bit size' 63 \<longrightarrow>
        (sint (Uint64 offset) < 0 \<or> sint (Uint64 size') < 0) \<and>
        GetMemoryCopyPadded (MemoryData scope) (Uint64 offset) (Uint64 size') = Inl RangeError \<and>
        OnOpcode GetMemoryCopyPadded pc opcode gas cost scope rData depth err t =
          Inr (t, [Warn ''failed to copy CREATE2 input'' RangeError offset size']))"
proof (intro conjI impI)
  show "OnOpcode g pc opcode gas cost scope rData depth err t =
     (case g (MemoryData scope) (Uint64 offset) (Uint64 size') of
        Inl e \<Rightarrow> Inr (t, [Warn ''failed to copy CREATE2 input'' e offset size'])
      | Inr data \<Rightarrow> Inr (lookupLog (Address scope) (dataResLoop 0 data []) topic t, []))"
    by (rule OnOpcode_log [OF assms])
  show "uint (Uint64 offset) = uint offset mod 2 ^ 64" by (rule uint_Uint64)
  show "uint (Uint64 size') = uint size' mod 2 ^ 64" by (rule uint_Uint64)
next
  assume "bit offset 63 \<or> bit size' 63"
  then show neg: "sint (Uint64 offset) < 0 \<or> sint (Uint64 size') < 0"
    by (simp add: sint_Uint64_neg)
  then show ex: "GetMemoryCopyPadded (MemoryData scope) (Uint64 offset) (Uint64 size') = Inl RangeError"
    by (simp add: GetMemoryCopyPadded_def)
  show "OnOpcode GetMemoryCopyPadded pc opcode gas cost scope rData depth err t =
          Inr (t, [Warn ''failed to copy CREATE2 input'' RangeError offset size'])"
    by (simp add: OnOpcode_log [OF assms] ex)
qed

text \<open>C10 at a LOG3 whose offset operand is \<open>2^255 + 2^63\<close>.\<close>

theorem OnOpcode_int64_operands_witness:
  "(0xa0 :: byte) < 0xa3 \<and> (0xa3 :: byte) \<le> 0xa4 \<and>
   bit (0x8000000000000000000000000000000000000000000000008000000000000000 :: uint256) 63 \<and>
   sint (Uint64 0x8000000000000000000000000000000000000000000000008000000000000000) < 0 \<and>
   OnOpcode GetMemoryCopyPadded 0 0xa3 0 0
     \<lparr>StackData = [7, 1, 0x8000000000000000000000000000000000000000000000008000000000000000],
      Address = 0xAA, MemoryData = [0x42]\<rparr>
     [] 1 None \<lparr>pre = [], isFail = False, reason = None\<rparr>
   = Inr (\<lparr>pre = [], isFail = False, reason = None\<rparr>,
          [Warn ''failed to copy CREATE2 input'' RangeError
             0x8000000000000000000000000000000000000000000000008000000000000000 1])"
proof -
  have b: "bit (0x8000000000000000000000000000000000000000000000008000000000000000 :: uint256) 63"
    by (simp add: bit_iff_odd)
  from OnOpcode_int64_operands [where opcode = "0xa3" and rest = "[]" and topic = 7
        and size' = 1
        and offset = "0x8000000000000000000000000000000000000000000000008000000000000000"
        and g = GetMemoryCopyPadded and pc = 0 and gas = 0 and cost = 0 and rData = "[]"
        and depth = 1 and err = None
        and t = "\<lparr>pre = [], isFail = False, reason = None\<rparr>"
        and scope = "\<lparr>StackData = [7, 1,
            0x8000000000000000000000000000000000000000000000008000000000000000],
            Address = 0xAA, MemoryData = [0x42]\<rparr>"] b
  show ?thesis by (simp add: sint_Uint64_neg)
qed

end
